theory Spec2Isabelle
  imports Main "HOL-Library.Word" "HOL-Library.Multiset"
begin

section \<open>Vulkan layer: handles and failures\<close>

text \<open>
  Vulkan handles are opaque; they are modelled as natural numbers, with
  \<open>VK_NULL_HANDLE\<close> being 0.  A failed \<open>CHECK(...)\<close> aborts the process, \<open>.at()\<close> on a
  missing key and \<open>.value()\<close> on an empty optional throw, \<open>top()\<close>, \<open>pop()\<close> and \<open>back()\<close>
  on an empty container are undefined behaviour.  Each of them ends the operation with an
  \<open>error\<close>.
\<close>

type_synonym VkDevice = nat
type_synonym VkCommandPool = nat
type_synonym VkCommandBuffer = nat
type_synonym VkQueue = nat

datatype error = CheckFailed | OutOfRange | UndefinedBehavior

section \<open>TimerQueryPool\<close>

datatype SlotState = kReadyForQueryIssue | kQueryPendingOnGPU

definition kNumLogicalQuerySlots :: nat where
  "kNumLogicalQuerySlots = 16384"

record TimerQueryPool =
  device_to_query_slots :: "VkDevice \<rightharpoonup> SlotState list"
  device_to_potential_next_free_index :: "VkDevice \<rightharpoonup> nat"

text \<open>
  Modelled from the spec: the bodies of \<open>TimerQueryPool::InitializeTimerQueryPool\<close>,
  \<open>NextReadyQuerySlot\<close>, \<open>ResetQuerySlots\<close> and \<open>RollbackPendingQuerySlots\<close> are not part of
  the sources at hand (only the class declaration is).  Section 4.1 of the specification:
  \<open>reserve\<close> returns a FREE slot and marks it PENDING, the search starts from the
  \<open>next_free_hint\<close> cursor and wraps once, and gives NONE when the pool is saturated;
  \<open>release\<close> and \<open>rollback\<close> make the same state transition to FREE.  A device whose
  pool was never initialised has no entry in the maps of the class, so looking it up is
  \<open>OutOfRange\<close>.
\<close>

definition InitializeTimerQueryPool :: "VkDevice \<Rightarrow> TimerQueryPool \<Rightarrow> TimerQueryPool" where
  "InitializeTimerQueryPool device pool =
     pool\<lparr>device_to_query_slots :=
            (device_to_query_slots pool)(device \<mapsto> replicate kNumLogicalQuerySlots kReadyForQueryIssue),
          device_to_potential_next_free_index :=
            (device_to_potential_next_free_index pool)(device \<mapsto> 0)\<rparr>"

fun find_ready_slot :: "SlotState list \<Rightarrow> nat \<Rightarrow> nat \<Rightarrow> nat option" where
  "find_ready_slot slots current_slot n =
     (if n = 0 then None
      else if slots ! current_slot = kReadyForQueryIssue then Some current_slot
      else find_ready_slot slots ((current_slot + 1) mod kNumLogicalQuerySlots) (n - 1))"

declare find_ready_slot.simps [simp del]

definition NextReadyQuerySlot ::
  "VkDevice \<Rightarrow> TimerQueryPool \<Rightarrow> error + (nat option \<times> TimerQueryPool)" where
  "NextReadyQuerySlot device pool =
     (case (device_to_potential_next_free_index pool device, device_to_query_slots pool device) of
        (Some potential_next_free_slot, Some slots) \<Rightarrow>
          (case find_ready_slot slots potential_next_free_slot kNumLogicalQuerySlots of
             None \<Rightarrow> Inr (None, pool)
           | Some current_slot \<Rightarrow>
               Inr (Some current_slot,
                    pool\<lparr>device_to_query_slots :=
                           (device_to_query_slots pool)
                             (device \<mapsto> slots[current_slot := kQueryPendingOnGPU]),
                         device_to_potential_next_free_index :=
                           (device_to_potential_next_free_index pool)
                             (device \<mapsto> (current_slot + 1) mod kNumLogicalQuerySlots)\<rparr>))
      | _ \<Rightarrow> Inl OutOfRange)"

definition set_slots_ready :: "nat list \<Rightarrow> SlotState list \<Rightarrow> SlotState list" where
  "set_slots_ready slot_indices slots =
     fold (\<lambda>index slot_states. slot_states[index := kReadyForQueryIssue]) slot_indices slots"

definition RollbackPendingQuerySlots ::
  "VkDevice \<Rightarrow> nat list \<Rightarrow> TimerQueryPool \<Rightarrow> error + TimerQueryPool" where
  "RollbackPendingQuerySlots device slot_indices pool =
     (case device_to_query_slots pool device of
        None \<Rightarrow> Inl OutOfRange
      | Some slots \<Rightarrow>
          Inr (pool\<lparr>device_to_query_slots :=
                      (device_to_query_slots pool)(device \<mapsto> set_slots_ready slot_indices slots)\<rparr>))"

definition ResetQuerySlots ::
  "VkDevice \<Rightarrow> nat list \<Rightarrow> TimerQueryPool \<Rightarrow> error + TimerQueryPool" where
  "ResetQuerySlots device slot_indices pool =
     (case device_to_query_slots pool device of
        None \<Rightarrow> Inl OutOfRange
      | Some slots \<Rightarrow>
          Inr (pool\<lparr>device_to_query_slots :=
                      (device_to_query_slots pool)(device \<mapsto> set_slots_ready slot_indices slots)\<rparr>))"

definition slot_state :: "TimerQueryPool \<Rightarrow> VkDevice \<Rightarrow> nat \<Rightarrow> SlotState option" where
  "slot_state pool device index =
     (case device_to_query_slots pool device of
        None \<Rightarrow> None
      | Some slots \<Rightarrow> if index < length slots then Some (slots ! index) else None)"

section \<open>CommandBufferManager: data model\<close>

text \<open>
  Modelled from the spec: \<open>CommandBufferManager.h\<close>, which declares the structs below, is
  not part of the sources at hand.  The fields are the ones \<open>CommandBufferManager.cpp\<close>
  reads and writes, with the optionality of section 3 of the specification; an END marker is
  built with \<open>Marker{.type = kDebugMarkerEnd}\<close>, so its text is the empty string.
\<close>

datatype MarkerType = kDebugMarkerBegin | kDebugMarkerEnd

record Marker =
  marker_type :: MarkerType
  marker_slot_index :: "nat option"
  marker_text :: string

record CommandBufferState =
  command_buffer_begin_slot_index :: "nat option"
  command_buffer_end_slot_index :: "nat option"
  markers :: "Marker list"

record SubmissionMetaInformation =
  thread_id :: int
  pre_submission_cpu_timestamp :: "64 word"
  post_submission_cpu_timestamp :: "64 word"

record SubmittedCommandBuffer =
  submitted_begin_slot_index :: nat
  submitted_end_slot_index :: nat

record SubmitInfo =
  command_buffers :: "SubmittedCommandBuffer list"

record SubmittedMarker =
  marker_meta_information :: SubmissionMetaInformation
  submitted_slot_index :: nat

record MarkerState =
  state_text :: string
  begin_info :: "SubmittedMarker option"
  end_info :: "SubmittedMarker option"
  depth :: nat

record QueueMarkerState =
  marker_stack :: "MarkerState list"

record QueueSubmission =
  submit_infos :: "SubmitInfo list"
  meta_information :: SubmissionMetaInformation
  completed_markers :: "MarkerState list"
  num_begin_markers :: nat

datatype PipelineStage = TOP_OF_PIPE | BOTTOM_OF_PIPE

text \<open>
  The state of a \<open>CommandBufferManager\<close>: its five maps, the \<open>TimerQueryPool\<close> it points
  to, and the \<open>CmdWriteTimestamp\<close> commands it has issued to the driver (newest last).
\<close>

record CommandBufferManager =
  pool_to_command_buffers :: "VkCommandPool \<rightharpoonup> VkCommandBuffer set"
  command_buffer_to_device :: "VkCommandBuffer \<rightharpoonup> VkDevice"
  command_buffer_to_state :: "VkCommandBuffer \<rightharpoonup> CommandBufferState"
  queue_to_submissions :: "VkQueue \<rightharpoonup> QueueSubmission list"
  queue_to_markers :: "VkQueue \<rightharpoonup> QueueMarkerState"
  timer_query_pool :: TimerQueryPool
  written_timestamps :: "(VkCommandBuffer \<times> PipelineStage \<times> nat) list"

section \<open>CommandBufferManager: recording\<close>

text \<open>
  The capture-state collaborator \<open>connector_->IsCapturing()\<close> is polled once per entry
  point; its answer at that call is the parameter \<open>is_capturing\<close>.  The clock and the
  thread id are parameters too.  A \<open>VkSubmitInfo\<close> array is the list of the command-buffer
  lists of its elements.
\<close>

definition empty_manager :: CommandBufferManager where
  "empty_manager =
     \<lparr>pool_to_command_buffers = Map.empty, command_buffer_to_device = Map.empty,
      command_buffer_to_state = Map.empty, queue_to_submissions = Map.empty,
      queue_to_markers = Map.empty,
      timer_query_pool =
        \<lparr>device_to_query_slots = Map.empty, device_to_potential_next_free_index = Map.empty\<rparr>,
      written_timestamps = []\<rparr>"

fun track_loop ::
  "VkDevice \<Rightarrow> VkCommandBuffer list \<Rightarrow> VkCommandBuffer set \<times> (VkCommandBuffer \<rightharpoonup> VkDevice) \<Rightarrow>
     error + (VkCommandBuffer set \<times> (VkCommandBuffer \<rightharpoonup> VkDevice))" where
  "track_loop device [] (associated_cbs, devices) = Inr (associated_cbs, devices)"
| "track_loop device (cb # cbs) (associated_cbs, devices) =
     (if cb = 0 then Inl CheckFailed
      else track_loop device cbs (insert cb associated_cbs, devices(cb \<mapsto> device)))"

definition TrackCommandBuffers ::
  "VkDevice \<Rightarrow> VkCommandPool \<Rightarrow> VkCommandBuffer list \<Rightarrow> CommandBufferManager \<Rightarrow>
     error + CommandBufferManager" where
  "TrackCommandBuffers device pool cbs_array m =
     (let associated_cbs =
            (case pool_to_command_buffers m pool of None \<Rightarrow> {} | Some cbs \<Rightarrow> cbs)
      in case track_loop device cbs_array (associated_cbs, command_buffer_to_device m) of
           Inl e \<Rightarrow> Inl e
         | Inr (associated_cbs', devices') \<Rightarrow>
             Inr (m\<lparr>pool_to_command_buffers := (pool_to_command_buffers m)(pool \<mapsto> associated_cbs'),
                    command_buffer_to_device := devices'\<rparr>))"

text \<open>
  The four marking entry points end with the same steps: look up the device of the command
  buffer (\<open>CHECK\<close>), take the next ready query slot, \<open>CHECK(found_slot)\<close>, and write the
  timestamp command.  \<open>write_timestamp_in_new_slot\<close> is that common tail; it returns the
  slot index.
\<close>

definition write_timestamp_in_new_slot ::
  "PipelineStage \<Rightarrow> VkCommandBuffer \<Rightarrow> CommandBufferManager \<Rightarrow>
     error + (nat \<times> CommandBufferManager)" where
  "write_timestamp_in_new_slot stage command_buffer m =
     (case command_buffer_to_device m command_buffer of
        None \<Rightarrow> Inl CheckFailed
      | Some device \<Rightarrow>
          (case NextReadyQuerySlot device (timer_query_pool m) of
             Inl e \<Rightarrow> Inl e
           | Inr (found_slot, pool') \<Rightarrow>
               (case found_slot of
                  None \<Rightarrow> Inl CheckFailed
                | Some slot_index \<Rightarrow>
                    Inr (slot_index,
                         m\<lparr>timer_query_pool := pool',
                           written_timestamps :=
                             written_timestamps m @ [(command_buffer, stage, slot_index)]\<rparr>))))"

definition MarkCommandBufferBegin ::
  "bool \<Rightarrow> VkCommandBuffer \<Rightarrow> CommandBufferManager \<Rightarrow> error + CommandBufferManager" where
  "MarkCommandBufferBegin is_capturing command_buffer m =
     (if command_buffer_to_state m command_buffer \<noteq> None then Inl CheckFailed
      else
        let new_state = \<lparr>command_buffer_begin_slot_index = None,
                         command_buffer_end_slot_index = None, markers = []\<rparr>;
            m1 = m\<lparr>command_buffer_to_state :=
                     (command_buffer_to_state m)(command_buffer \<mapsto> new_state)\<rparr>
        in if \<not> is_capturing then Inr m1
           else
             (case write_timestamp_in_new_slot TOP_OF_PIPE command_buffer m1 of
                Inl e \<Rightarrow> Inl e
              | Inr (slot_index, m2) \<Rightarrow>
                  Inr (m2\<lparr>command_buffer_to_state :=
                            (command_buffer_to_state m2)
                              (command_buffer \<mapsto>
                                 new_state\<lparr>command_buffer_begin_slot_index := Some slot_index\<rparr>)\<rparr>)))"

definition MarkCommandBufferEnd ::
  "bool \<Rightarrow> VkCommandBuffer \<Rightarrow> CommandBufferManager \<Rightarrow> error + CommandBufferManager" where
  "MarkCommandBufferEnd is_capturing command_buffer m =
     (if \<not> is_capturing then Inr m
      else
        (case command_buffer_to_state m command_buffer of
           None \<Rightarrow> Inl CheckFailed
         | Some command_buffer_state \<Rightarrow>
             if command_buffer_begin_slot_index command_buffer_state = None then Inr m
             else
               (case write_timestamp_in_new_slot BOTTOM_OF_PIPE command_buffer m of
                  Inl e \<Rightarrow> Inl e
                | Inr (slot_index, m2) \<Rightarrow>
                    Inr (m2\<lparr>command_buffer_to_state :=
                              (command_buffer_to_state m2)
                                (command_buffer \<mapsto>
                                   command_buffer_state
                                     \<lparr>command_buffer_end_slot_index := Some slot_index\<rparr>)\<rparr>))))"

text \<open>
  Both debug-marker entry points append the marker first and reserve a slot for it only
  while capturing.  \<open>text\<close> is a C string pointer: \<open>None\<close> is \<open>nullptr\<close>.
\<close>

definition append_marker_and_slot ::
  "bool \<Rightarrow> PipelineStage \<Rightarrow> Marker \<Rightarrow> VkCommandBuffer \<Rightarrow> CommandBufferManager \<Rightarrow>
     error + CommandBufferManager" where
  "append_marker_and_slot is_capturing stage marker command_buffer m =
     (case command_buffer_to_state m command_buffer of
        None \<Rightarrow> Inl CheckFailed
      | Some state \<Rightarrow>
          let state1 = state\<lparr>markers := markers state @ [marker]\<rparr>;
              m1 = m\<lparr>command_buffer_to_state :=
                       (command_buffer_to_state m)(command_buffer \<mapsto> state1)\<rparr>
          in if \<not> is_capturing then Inr m1
             else
               (case write_timestamp_in_new_slot stage command_buffer m1 of
                  Inl e \<Rightarrow> Inl e
                | Inr (slot_index, m2) \<Rightarrow>
                    Inr (m2\<lparr>command_buffer_to_state :=
                              (command_buffer_to_state m2)
                                (command_buffer \<mapsto>
                                   state\<lparr>markers :=
                                     markers state @
                                       [marker\<lparr>marker_slot_index := Some slot_index\<rparr>]\<rparr>)\<rparr>)))"

definition MarkDebugMarkerBegin ::
  "bool \<Rightarrow> VkCommandBuffer \<Rightarrow> string option \<Rightarrow> CommandBufferManager \<Rightarrow>
     error + CommandBufferManager" where
  "MarkDebugMarkerBegin is_capturing command_buffer text_ptr m =
     (case text_ptr of
        None \<Rightarrow> Inl CheckFailed
      | Some txt \<Rightarrow>
          append_marker_and_slot is_capturing TOP_OF_PIPE
            \<lparr>marker_type = kDebugMarkerBegin, marker_slot_index = None, marker_text = txt\<rparr>
            command_buffer m)"

definition MarkDebugMarkerEnd ::
  "bool \<Rightarrow> VkCommandBuffer \<Rightarrow> CommandBufferManager \<Rightarrow> error + CommandBufferManager" where
  "MarkDebugMarkerEnd is_capturing command_buffer m =
     append_marker_and_slot is_capturing BOTTOM_OF_PIPE
       \<lparr>marker_type = kDebugMarkerEnd, marker_slot_index = None, marker_text = []\<rparr>
       command_buffer m"

section \<open>CommandBufferManager: submission\<close>

fun pre_submit_command_buffers ::
  "(VkCommandBuffer \<rightharpoonup> CommandBufferState) \<Rightarrow> VkCommandBuffer list \<Rightarrow>
     error + SubmittedCommandBuffer list" where
  "pre_submit_command_buffers states [] = Inr []"
| "pre_submit_command_buffers states (command_buffer # rest) =
     (case states command_buffer of
        None \<Rightarrow> Inl CheckFailed
      | Some state \<Rightarrow>
          (case command_buffer_begin_slot_index state of
             None \<Rightarrow> pre_submit_command_buffers states rest
           | Some begin_slot \<Rightarrow>
               (case command_buffer_end_slot_index state of
                  None \<Rightarrow> Inl CheckFailed
                | Some end_slot \<Rightarrow>
                    (case pre_submit_command_buffers states rest of
                       Inl e \<Rightarrow> Inl e
                     | Inr submitted \<Rightarrow>
                         Inr (\<lparr>submitted_begin_slot_index = begin_slot,
                               submitted_end_slot_index = end_slot\<rparr> # submitted)))))"

fun pre_submit_infos ::
  "(VkCommandBuffer \<rightharpoonup> CommandBufferState) \<Rightarrow> VkCommandBuffer list list \<Rightarrow>
     error + SubmitInfo list" where
  "pre_submit_infos states [] = Inr []"
| "pre_submit_infos states (submit_info # rest) =
     (case pre_submit_command_buffers states submit_info of
        Inl e \<Rightarrow> Inl e
      | Inr submitted \<Rightarrow>
          (case pre_submit_infos states rest of
             Inl e \<Rightarrow> Inl e
           | Inr infos \<Rightarrow> Inr (\<lparr>command_buffers = submitted\<rparr> # infos)))"

definition DoPreSubmitQueue ::
  "bool \<Rightarrow> int \<Rightarrow> 64 word \<Rightarrow> VkQueue \<Rightarrow> VkCommandBuffer list list \<Rightarrow> CommandBufferManager \<Rightarrow>
     error + CommandBufferManager" where
  "DoPreSubmitQueue is_capturing current_thread_id now queue submits m =
     (if \<not> is_capturing then Inr m
      else
        (case pre_submit_infos (command_buffer_to_state m) submits of
           Inl e \<Rightarrow> Inl e
         | Inr infos \<Rightarrow>
             let queue_submission =
                   \<lparr>submit_infos = infos,
                    meta_information =
                      \<lparr>thread_id = current_thread_id, pre_submission_cpu_timestamp = now,
                       post_submission_cpu_timestamp = 0\<rparr>,
                    completed_markers = [], num_begin_markers = 0\<rparr>;
                 submissions =
                   (case queue_to_submissions m queue of None \<Rightarrow> [] | Some subs \<Rightarrow> subs)
             in Inr (m\<lparr>queue_to_submissions :=
                         (queue_to_submissions m)(queue \<mapsto> submissions @ [queue_submission])\<rparr>)))"

text \<open>
  \<open>DoPostSubmitQueue\<close> walks the markers of every submitted command buffer.  The loop
  state is the queue's marker stack (top first) and \<open>queue_submission\<close>, the pointer to
  the last pending submission of the queue: \<open>None\<close> is \<open>nullptr\<close>.  An END marker calls
  \<open>marker_stack.top()\<close> and \<open>pop()\<close> with no emptiness test.
\<close>

fun post_submit_marker ::
  "Marker \<Rightarrow> MarkerState list \<times> QueueSubmission option \<Rightarrow>
     error + (MarkerState list \<times> QueueSubmission option)" where
  "post_submit_marker marker (stack, queue_submission) =
     (case marker_type marker of
        kDebugMarkerBegin \<Rightarrow>
          (case (queue_submission, marker_slot_index marker) of
             (Some submission, Some slot) \<Rightarrow>
               Inr (\<lparr>state_text = marker_text marker,
                     begin_info = Some \<lparr>marker_meta_information = meta_information submission,
                                        submitted_slot_index = slot\<rparr>,
                     end_info = None, depth = length stack\<rparr> # stack,
                    Some (submission\<lparr>num_begin_markers := num_begin_markers submission + 1\<rparr>))
           | _ \<Rightarrow>
               Inr (\<lparr>state_text = marker_text marker, begin_info = None, end_info = None,
                     depth = length stack\<rparr> # stack,
                    queue_submission))
      | kDebugMarkerEnd \<Rightarrow>
          (case stack of
             [] \<Rightarrow> Inl UndefinedBehavior
           | marker_state # stack' \<Rightarrow>
               (case (queue_submission, marker_slot_index marker) of
                  (Some submission, Some slot) \<Rightarrow>
                    Inr (stack',
                         Some (submission\<lparr>completed_markers :=
                                 completed_markers submission @
                                   [marker_state\<lparr>end_info :=
                                      Some \<lparr>marker_meta_information = meta_information submission,
                                            submitted_slot_index = slot\<rparr>\<rparr>]\<rparr>))
                | _ \<Rightarrow> Inr (stack', queue_submission))))"

fun post_submit_markers ::
  "Marker list \<Rightarrow> MarkerState list \<times> QueueSubmission option \<Rightarrow>
     error + (MarkerState list \<times> QueueSubmission option)" where
  "post_submit_markers [] st = Inr st"
| "post_submit_markers (marker # rest) st =
     (case post_submit_marker marker st of
        Inl e \<Rightarrow> Inl e
      | Inr st' \<Rightarrow> post_submit_markers rest st')"

fun post_submit_command_buffers ::
  "VkCommandBuffer list \<Rightarrow>
     (VkCommandBuffer \<rightharpoonup> CommandBufferState) \<times> MarkerState list \<times> QueueSubmission option \<Rightarrow>
     error + ((VkCommandBuffer \<rightharpoonup> CommandBufferState) \<times> MarkerState list \<times> QueueSubmission option)"
  where
  "post_submit_command_buffers [] st = Inr st"
| "post_submit_command_buffers (command_buffer # rest) (states, st) =
     (case states command_buffer of
        None \<Rightarrow> Inl CheckFailed
      | Some state \<Rightarrow>
          (case post_submit_markers (markers state) st of
             Inl e \<Rightarrow> Inl e
           | Inr st' \<Rightarrow> post_submit_command_buffers rest (states(command_buffer := None), st')))"

fun post_submit_infos ::
  "VkCommandBuffer list list \<Rightarrow>
     (VkCommandBuffer \<rightharpoonup> CommandBufferState) \<times> MarkerState list \<times> QueueSubmission option \<Rightarrow>
     error + ((VkCommandBuffer \<rightharpoonup> CommandBufferState) \<times> MarkerState list \<times> QueueSubmission option)"
  where
  "post_submit_infos [] st = Inr st"
| "post_submit_infos (submit_info # rest) st =
     (case post_submit_command_buffers submit_info st of
        Inl e \<Rightarrow> Inl e
      | Inr st' \<Rightarrow> post_submit_infos rest st')"

definition last_submission ::
  "bool \<Rightarrow> 64 word \<Rightarrow> QueueSubmission list option \<Rightarrow> error + QueueSubmission option" where
  "last_submission is_capturing now submissions =
     (case submissions of
        None \<Rightarrow> Inr None
      | Some subs \<Rightarrow>
          if \<not> is_capturing then Inr None
          else if subs = [] then Inl UndefinedBehavior
          else Inr (Some ((last subs)
                 \<lparr>meta_information :=
                    (meta_information (last subs))\<lparr>post_submission_cpu_timestamp := now\<rparr>\<rparr>)))"

definition DoPostSubmitQueue ::
  "bool \<Rightarrow> 64 word \<Rightarrow> VkQueue \<Rightarrow> VkCommandBuffer list list \<Rightarrow> CommandBufferManager \<Rightarrow>
     error + CommandBufferManager" where
  "DoPostSubmitQueue is_capturing now queue submits m =
     (let stack = (case queue_to_markers m queue of
                     None \<Rightarrow> [] | Some queue_markers \<Rightarrow> marker_stack queue_markers)
      in case last_submission is_capturing now (queue_to_submissions m queue) of
           Inl e \<Rightarrow> Inl e
         | Inr queue_submission \<Rightarrow>
             (case post_submit_infos submits (command_buffer_to_state m, stack, queue_submission) of
                Inl e \<Rightarrow> Inl e
              | Inr (states', stack', queue_submission') \<Rightarrow>
                  Inr (m\<lparr>command_buffer_to_state := states',
                         queue_to_markers :=
                           (queue_to_markers m)(queue \<mapsto> \<lparr>marker_stack = stack'\<rparr>),
                         queue_to_submissions :=
                           (case queue_submission' of
                              None \<Rightarrow> queue_to_submissions m
                            | Some submission \<Rightarrow>
                                (queue_to_submissions m)
                                  (queue \<mapsto>
                                     butlast (the (queue_to_submissions m queue)) @ [submission]))\<rparr>)))"

section \<open>CommandBufferManager: reset\<close>

text \<open>
  \<open>slots_to_rollback\<close> is the vector \<open>marker_slots_to_rollback\<close> that
  \<open>ResetCommandBuffer\<close> fills and hands to \<open>RollbackPendingQuerySlots\<close>.
\<close>

definition slots_to_rollback :: "CommandBufferState \<Rightarrow> nat list" where
  "slots_to_rollback state =
     (case command_buffer_begin_slot_index state of
        None \<Rightarrow> [] | Some begin_slot \<Rightarrow> [begin_slot]) @
     (case command_buffer_end_slot_index state of
        None \<Rightarrow> [] | Some end_slot \<Rightarrow> [end_slot])"

definition ResetCommandBuffer ::
  "VkCommandBuffer \<Rightarrow> CommandBufferManager \<Rightarrow> error + CommandBufferManager" where
  "ResetCommandBuffer command_buffer m =
     (case command_buffer_to_state m command_buffer of
        None \<Rightarrow> Inr m
      | Some state \<Rightarrow>
          (case command_buffer_to_device m command_buffer of
             None \<Rightarrow> Inl OutOfRange
           | Some device \<Rightarrow>
               (case RollbackPendingQuerySlots device (slots_to_rollback state)
                       (timer_query_pool m) of
                  Inl e \<Rightarrow> Inl e
                | Inr pool' \<Rightarrow>
                    Inr (m\<lparr>timer_query_pool := pool',
                           command_buffer_to_state :=
                             (command_buffer_to_state m)(command_buffer := None)\<rparr>))))"

section \<open>CommandBufferManager: completing submissions\<close>

text \<open>
  \<open>GetQueryPoolResults\<close> for one slot is the map \<open>query_results\<close>: \<open>Some ticks\<close> is
  \<open>VK_SUCCESS\<close> with the raw value, \<open>None\<close> is any other result.

  The readiness probe of one submission is the inner \<open>while\<close> loop over
  \<open>submit_info_reverse_it\<close>.  The list argument of \<open>probe_submit_infos\<close> is what the
  reverse iterator still has to visit; the body reads \<open>submission.submit_infos.back()\<close>, not
  the iterator.  The result is \<open>erase_submission\<close>, what is pushed to
  \<open>completed_submissions\<close>, and the slots polled.
\<close>

fun probe_submit_infos ::
  "(nat \<rightharpoonup> 64 word) \<Rightarrow> QueueSubmission \<Rightarrow> SubmitInfo list \<Rightarrow>
     bool \<times> QueueSubmission list \<times> nat list" where
  "probe_submit_infos query_results submission [] = (True, [], [])"
| "probe_submit_infos query_results submission (reverse_it # rest) =
     (let submit_info = last (submit_infos submission) in
      if command_buffers submit_info = [] then probe_submit_infos query_results submission rest
      else
        let check_slot_index_end = submitted_end_slot_index (last (command_buffers submit_info))
        in if query_results check_slot_index_end \<noteq> None
           then (True, [submission], [check_slot_index_end])
           else (False, [], [check_slot_index_end]))"

fun complete_queue_submissions ::
  "(nat \<rightharpoonup> 64 word) \<Rightarrow> QueueSubmission list \<Rightarrow>
     QueueSubmission list \<times> QueueSubmission list \<times> nat list" where
  "complete_queue_submissions query_results [] = ([], [], [])"
| "complete_queue_submissions query_results (submission # rest) =
     (case complete_queue_submissions query_results rest of
        (remaining, completed, polled) \<Rightarrow>
          if submit_infos submission = [] then (remaining, completed, polled)
          else
            (case probe_submit_infos query_results submission (rev (submit_infos submission)) of
               (erase_submission, done, p) \<Rightarrow>
                 (if erase_submission then remaining else submission # remaining,
                  done @ completed, p @ polled)))"

text \<open>
  The outer loop runs over the hash map \<open>queue_to_submissions_\<close>, whose iteration order is
  not specified: the order is the parameter \<open>queues\<close>.
\<close>

fun complete_queues ::
  "(nat \<rightharpoonup> 64 word) \<Rightarrow> VkQueue list \<Rightarrow> (VkQueue \<rightharpoonup> QueueSubmission list) \<Rightarrow>
     (VkQueue \<rightharpoonup> QueueSubmission list) \<times> QueueSubmission list \<times> nat list" where
  "complete_queues query_results [] submissions = (submissions, [], [])"
| "complete_queues query_results (queue # rest) submissions =
     (case submissions queue of
        None \<Rightarrow> complete_queues query_results rest submissions
      | Some queue_submissions \<Rightarrow>
          (case complete_queue_submissions query_results queue_submissions of
             (remaining, completed, polled) \<Rightarrow>
               (case complete_queues query_results rest (submissions(queue \<mapsto> remaining)) of
                  (submissions', completed', polled') \<Rightarrow>
                    (submissions', completed @ completed', polled @ polled'))))"

text \<open>
  The record written for a completed submission.  The conversion from ticks to nanoseconds,
  \<open>uint64_t(double(ticks) * timestamp_period)\<close>, is floating-point arithmetic: it is the
  parameter \<open>to_ns\<close>.  \<open>intern\<close> is \<open>InternStringIfNecessaryAndGetKey\<close>.
\<close>

record GpuCommandBuffer =
  begin_gpu_timestamp_ns :: "64 word"
  end_gpu_timestamp_ns :: "64 word"

record GpuDebugMarkerBeginInfo =
  begin_thread_id :: int
  begin_pre_submission_cpu_timestamp :: "64 word"
  begin_post_submission_cpu_timestamp :: "64 word"
  marker_begin_gpu_timestamp_ns :: "64 word"

record GpuDebugMarker =
  text_key :: "64 word"
  proto_depth :: nat
  marker_end_gpu_timestamp_ns :: "64 word"
  begin_marker :: "GpuDebugMarkerBeginInfo option"

record GpuQueueSubmission =
  proto_thread_id :: int
  proto_pre_submission_cpu_timestamp :: "64 word"
  proto_post_submission_cpu_timestamp :: "64 word"
  gpu_cpu_time_offset :: int
  proto_submit_infos :: "GpuCommandBuffer list list"
  proto_num_begin_markers :: nat
  proto_completed_markers :: "GpuDebugMarker list"

fun write_command_buffers ::
  "(nat \<rightharpoonup> 64 word) \<Rightarrow> (64 word \<Rightarrow> 64 word) \<Rightarrow> SubmittedCommandBuffer list \<Rightarrow>
     error + (GpuCommandBuffer list \<times> nat list)" where
  "write_command_buffers query_results to_ns [] = Inr ([], [])"
| "write_command_buffers query_results to_ns (completed_command_buffer # rest) =
     (case query_results (submitted_begin_slot_index completed_command_buffer) of
        None \<Rightarrow> Inl CheckFailed
      | Some begin_timestamp \<Rightarrow>
          (case query_results (submitted_end_slot_index completed_command_buffer) of
             None \<Rightarrow> Inl CheckFailed
           | Some end_timestamp \<Rightarrow>
               (case write_command_buffers query_results to_ns rest of
                  Inl e \<Rightarrow> Inl e
                | Inr (protos, query_slots_to_reset) \<Rightarrow>
                    Inr (\<lparr>begin_gpu_timestamp_ns = to_ns begin_timestamp,
                          end_gpu_timestamp_ns = to_ns end_timestamp\<rparr> # protos,
                         submitted_begin_slot_index completed_command_buffer #
                         submitted_end_slot_index completed_command_buffer #
                         query_slots_to_reset))))"

fun write_submit_infos ::
  "(nat \<rightharpoonup> 64 word) \<Rightarrow> (64 word \<Rightarrow> 64 word) \<Rightarrow> SubmitInfo list \<Rightarrow>
     error + (GpuCommandBuffer list list \<times> nat list)" where
  "write_submit_infos query_results to_ns [] = Inr ([], [])"
| "write_submit_infos query_results to_ns (completed_submit # rest) =
     (case write_command_buffers query_results to_ns (command_buffers completed_submit) of
        Inl e \<Rightarrow> Inl e
      | Inr (cb_protos, slots) \<Rightarrow>
          (case write_submit_infos query_results to_ns rest of
             Inl e \<Rightarrow> Inl e
           | Inr (protos, query_slots_to_reset) \<Rightarrow>
               Inr (cb_protos # protos, slots @ query_slots_to_reset)))"

definition write_marker ::
  "(nat \<rightharpoonup> 64 word) \<Rightarrow> (64 word \<Rightarrow> 64 word) \<Rightarrow> (string \<Rightarrow> 64 word) \<Rightarrow> MarkerState \<Rightarrow>
     error + (GpuDebugMarker \<times> nat list)" where
  "write_marker query_results to_ns intern marker_state =
     (case end_info marker_state of
        None \<Rightarrow> Inl OutOfRange
      | Some end_marker \<Rightarrow>
          (case query_results (submitted_slot_index end_marker) of
             None \<Rightarrow> Inl CheckFailed
           | Some end_timestamp \<Rightarrow>
               (case begin_info marker_state of
                  None \<Rightarrow>
                    Inr (\<lparr>text_key = intern (state_text marker_state),
                          proto_depth = depth marker_state,
                          marker_end_gpu_timestamp_ns = to_ns end_timestamp,
                          begin_marker = None\<rparr>,
                         [submitted_slot_index end_marker])
                | Some begin_marker_info \<Rightarrow>
                    (case query_results (submitted_slot_index begin_marker_info) of
                       None \<Rightarrow> Inl CheckFailed
                     | Some begin_timestamp \<Rightarrow>
                         Inr (\<lparr>text_key = intern (state_text marker_state),
                               proto_depth = depth marker_state,
                               marker_end_gpu_timestamp_ns = to_ns end_timestamp,
                               begin_marker =
                                 Some \<lparr>begin_thread_id =
                                          thread_id (marker_meta_information begin_marker_info),
                                       begin_pre_submission_cpu_timestamp =
                                          pre_submission_cpu_timestamp
                                            (marker_meta_information begin_marker_info),
                                       begin_post_submission_cpu_timestamp =
                                          post_submission_cpu_timestamp
                                            (marker_meta_information begin_marker_info),
                                       marker_begin_gpu_timestamp_ns = to_ns begin_timestamp\<rparr>\<rparr>,
                              [submitted_slot_index end_marker,
                               submitted_slot_index begin_marker_info])))))"

fun write_markers ::
  "(nat \<rightharpoonup> 64 word) \<Rightarrow> (64 word \<Rightarrow> 64 word) \<Rightarrow> (string \<Rightarrow> 64 word) \<Rightarrow> MarkerState list \<Rightarrow>
     error + (GpuDebugMarker list \<times> nat list)" where
  "write_markers query_results to_ns intern [] = Inr ([], [])"
| "write_markers query_results to_ns intern (marker_state # rest) =
     (case write_marker query_results to_ns intern marker_state of
        Inl e \<Rightarrow> Inl e
      | Inr (proto, slots) \<Rightarrow>
          (case write_markers query_results to_ns intern rest of
             Inl e \<Rightarrow> Inl e
           | Inr (protos, query_slots_to_reset) \<Rightarrow>
               Inr (proto # protos, slots @ query_slots_to_reset)))"

definition write_submission ::
  "(nat \<rightharpoonup> 64 word) \<Rightarrow> (64 word \<Rightarrow> 64 word) \<Rightarrow> (string \<Rightarrow> 64 word) \<Rightarrow> int \<Rightarrow>
     QueueSubmission \<Rightarrow> error + (GpuQueueSubmission \<times> nat list)" where
  "write_submission query_results to_ns intern gpu_cpu_offset completed_submission =
     (case write_submit_infos query_results to_ns (submit_infos completed_submission) of
        Inl e \<Rightarrow> Inl e
      | Inr (info_protos, cb_slots) \<Rightarrow>
          (case write_markers query_results to_ns intern
                  (completed_markers completed_submission) of
             Inl e \<Rightarrow> Inl e
           | Inr (marker_protos, marker_slots) \<Rightarrow>
               Inr (\<lparr>proto_thread_id = thread_id (meta_information completed_submission),
                     proto_pre_submission_cpu_timestamp =
                       pre_submission_cpu_timestamp (meta_information completed_submission),
                     proto_post_submission_cpu_timestamp =
                       post_submission_cpu_timestamp (meta_information completed_submission),
                     gpu_cpu_time_offset = gpu_cpu_offset,
                     proto_submit_infos = info_protos,
                     proto_num_begin_markers = num_begin_markers completed_submission,
                     proto_completed_markers = marker_protos\<rparr>,
                    cb_slots @ marker_slots)))"

fun write_submissions ::
  "(nat \<rightharpoonup> 64 word) \<Rightarrow> (64 word \<Rightarrow> 64 word) \<Rightarrow> (string \<Rightarrow> 64 word) \<Rightarrow> int \<Rightarrow>
     QueueSubmission list \<Rightarrow> error + (GpuQueueSubmission list \<times> nat list)" where
  "write_submissions query_results to_ns intern gpu_cpu_offset [] = Inr ([], [])"
| "write_submissions query_results to_ns intern gpu_cpu_offset (completed_submission # rest) =
     (case write_submission query_results to_ns intern gpu_cpu_offset completed_submission of
        Inl e \<Rightarrow> Inl e
      | Inr (proto, slots) \<Rightarrow>
          (case write_submissions query_results to_ns intern gpu_cpu_offset rest of
             Inl e \<Rightarrow> Inl e
           | Inr (protos, query_slots_to_reset) \<Rightarrow>
               Inr (proto # protos, slots @ query_slots_to_reset)))"

text \<open>
  \<open>CompleteSubmits\<close> returns the new state, the records handed to
  \<open>WriteQueueSubmission\<close> in order, and the slots the readiness probes polled.
\<close>

definition CompleteSubmits ::
  "(nat \<rightharpoonup> 64 word) \<Rightarrow> (64 word \<Rightarrow> 64 word) \<Rightarrow> (string \<Rightarrow> 64 word) \<Rightarrow> int \<Rightarrow> VkQueue list \<Rightarrow>
     VkDevice \<Rightarrow> CommandBufferManager \<Rightarrow>
     error + (CommandBufferManager \<times> GpuQueueSubmission list \<times> nat list)" where
  "CompleteSubmits query_results to_ns intern gpu_cpu_offset queues device m =
     (case complete_queues query_results queues (queue_to_submissions m) of
        (submissions', completed_submissions, polled) \<Rightarrow>
          if completed_submissions = []
          then Inr (m\<lparr>queue_to_submissions := submissions'\<rparr>, [], polled)
          else
            (case write_submissions query_results to_ns intern gpu_cpu_offset
                    completed_submissions of
               Inl e \<Rightarrow> Inl e
             | Inr (protos, query_slots_to_reset) \<Rightarrow>
                 (case ResetQuerySlots device query_slots_to_reset (timer_query_pool m) of
                    Inl e \<Rightarrow> Inl e
                  | Inr pool' \<Rightarrow>
                      Inr (m\<lparr>queue_to_submissions := submissions', timer_query_pool := pool'\<rparr>,
                           protos, polled))))"

section \<open>Traces and example states\<close>

text \<open>
  \<open>then_do\<close> runs the next entry point on the state the previous one left, unless the
  process has ended with an error.
\<close>

definition then_do :: "error + 'a \<Rightarrow> ('a \<Rightarrow> error + 'b) \<Rightarrow> error + 'b" where
  "then_do r f = (case r of Inl e \<Rightarrow> Inl e | Inr x \<Rightarrow> f x)"

text \<open>
  \<open>fresh_manager\<close>: command buffers 7 and 8 are tracked on device 1, whose query pool is
  initialised.  \<open>saturated_manager\<close>: command buffer 7 is being recorded and every slot of
  the pool of device 1 is pending.  \<open>marker_manager\<close>: the state after
  \<open>MarkCommandBufferBegin\<close> and \<open>MarkDebugMarkerBegin\<close> on command buffer 7 while
  capturing.
\<close>

definition fresh_manager :: CommandBufferManager where
  "fresh_manager =
     empty_manager
       \<lparr>pool_to_command_buffers := [2 \<mapsto> {7, 8}],
        command_buffer_to_device := [7 \<mapsto> 1, 8 \<mapsto> 1],
        timer_query_pool := InitializeTimerQueryPool 1 (timer_query_pool empty_manager)\<rparr>"

definition saturated_manager :: CommandBufferManager where
  "saturated_manager =
     empty_manager
       \<lparr>command_buffer_to_device := [7 \<mapsto> 1],
        command_buffer_to_state :=
          [7 \<mapsto> \<lparr>command_buffer_begin_slot_index = Some 0,
                  command_buffer_end_slot_index = None, markers = []\<rparr>],
        timer_query_pool :=
          \<lparr>device_to_query_slots =
             [1 \<mapsto> replicate kNumLogicalQuerySlots kQueryPendingOnGPU],
           device_to_potential_next_free_index = [1 \<mapsto> 0]\<rparr>\<rparr>"

definition marker_manager :: CommandBufferManager where
  "marker_manager =
     fresh_manager
       \<lparr>command_buffer_to_state :=
          [7 \<mapsto> \<lparr>command_buffer_begin_slot_index = Some 0,
                  command_buffer_end_slot_index = None,
                  markers = [\<lparr>marker_type = kDebugMarkerBegin, marker_slot_index = Some 1,
                              marker_text = ''a''\<rparr>]\<rparr>],
        timer_query_pool :=
          \<lparr>device_to_query_slots =
             [1 \<mapsto> (replicate kNumLogicalQuerySlots kReadyForQueryIssue)
                      [0 := kQueryPendingOnGPU, 1 := kQueryPendingOnGPU]],
           device_to_potential_next_free_index = [1 \<mapsto> 2]\<rparr>,
        written_timestamps := [(7, TOP_OF_PIPE, 0), (7, TOP_OF_PIPE, 1)]\<rparr>"

text \<open>
  The slot the specification asks the readiness probe to poll: scan the submit infos in
  reverse for the first one with a non-empty command-buffer list, and take the end slot of
  its last command buffer.
\<close>

definition spec_last_end_slot :: "QueueSubmission \<Rightarrow> nat option" where
  "spec_last_end_slot submission =
     (case filter (\<lambda>submit_info. command_buffers submit_info \<noteq> [])
             (rev (submit_infos submission)) of
        [] \<Rightarrow> None
      | submit_info # _ \<Rightarrow> Some (submitted_end_slot_index (last (command_buffers submit_info))))"

text \<open>
  \<open>trailing_empty_trace\<close>: command buffer 7 is recorded while capturing, command buffer 8
  while not capturing, and the two are submitted to queue 3 in two submit infos.
\<close>

definition trailing_empty_trace :: "error + CommandBufferManager" where
  "trailing_empty_trace =
     then_do (MarkCommandBufferBegin True 7 fresh_manager) (\<lambda>m.
     then_do (MarkCommandBufferEnd True 7 m) (\<lambda>m.
     then_do (MarkCommandBufferBegin False 8 m) (\<lambda>m.
     then_do (MarkCommandBufferEnd False 8 m) (\<lambda>m.
     then_do (DoPreSubmitQueue True 5 100 3 [[7], [8]] m) (\<lambda>m.
       DoPostSubmitQueue True 200 3 [[7], [8]] m)))))"

section \<open>PerfEventQueue\<close>

text \<open>
  A \<open>PerfEvent\<close> is an opaque record with a timestamp in nanoseconds (\<open>uint64_t\<close>);
  \<open>payload\<close> stands for the rest of the record.
\<close>

record PerfEvent =
  timestamp :: "64 word"
  payload :: nat

text \<open>
  \<open>std::priority_queue\<close> keeps its elements in a vector arranged as a binary heap, as
  libstdc++ implements it.  \<open>push\<close> is \<open>push_back\<close> followed by \<open>std::push_heap\<close>:
  \<open>sift_up\<close> is \<open>__push_heap\<close> with \<open>topIndex = 0\<close>, moving the new element up while
  \<open>cmp parent element\<close> holds.  \<open>pop\<close> is \<open>std::pop_heap\<close> followed by \<open>pop_back\<close>:
  the last element is taken out as \<open>value\<close>, and \<open>__adjust_heap\<close> first moves the hole
  left by the first element down to a leaf, each time pulling up the child that \<open>cmp\<close>
  does not rank below its sibling (\<open>adjust_heap_hole\<close>, the \<open>while\<close> loop; a last
  left child without sibling is pulled up after it), and then moves \<open>value\<close> up from
  that leaf with \<open>__push_heap\<close>.  \<open>top\<close> is the first element of the vector.
\<close>

function sift_up :: "('a \<Rightarrow> 'a \<Rightarrow> bool) \<Rightarrow> 'a list \<Rightarrow> nat \<Rightarrow> 'a list" where
  "sift_up cmp c hole =
     (if 0 < hole \<and> cmp (c ! ((hole - 1) div 2)) (c ! hole)
      then sift_up cmp (c[hole := c ! ((hole - 1) div 2), (hole - 1) div 2 := c ! hole])
             ((hole - 1) div 2)
      else c)"
  by pat_completeness auto
termination
  by (relation "measure (\<lambda>(cmp, c, hole). hole)") auto

function adjust_heap_hole ::
  "('a \<Rightarrow> 'a \<Rightarrow> bool) \<Rightarrow> 'a list \<Rightarrow> nat \<Rightarrow> nat \<Rightarrow> 'a list \<times> nat" where
  "adjust_heap_hole cmp c hole len =
     (if hole < (len - 1) div 2
      then (if cmp (c ! (2 * (hole + 1))) (c ! (2 * (hole + 1) - 1))
            then adjust_heap_hole cmp (c[hole := c ! (2 * (hole + 1) - 1)])
                   (2 * (hole + 1) - 1) len
            else adjust_heap_hole cmp (c[hole := c ! (2 * (hole + 1))]) (2 * (hole + 1)) len)
      else (c, hole))"
  by pat_completeness auto
termination
  by (relation "measure (\<lambda>(cmp, c, hole, len). len - hole)") auto

definition adjust_heap :: "('a \<Rightarrow> 'a \<Rightarrow> bool) \<Rightarrow> 'a list \<Rightarrow> nat \<Rightarrow> 'a \<Rightarrow> 'a list" where
  "adjust_heap cmp c len v =
     (case adjust_heap_hole cmp c 0 len of
        (c1, hole) \<Rightarrow>
          if even len \<and> hole = (len - 2) div 2
          then sift_up cmp
                 (c1[hole := c1 ! (2 * (hole + 1) - 1), 2 * (hole + 1) - 1 := v])
                 (2 * (hole + 1) - 1)
          else sift_up cmp (c1[hole := v]) hole)"

definition priority_queue_push :: "('a \<Rightarrow> 'a \<Rightarrow> bool) \<Rightarrow> 'a list \<Rightarrow> 'a \<Rightarrow> 'a list" where
  "priority_queue_push cmp c x = sift_up cmp (c @ [x]) (length c)"

definition priority_queue_pop :: "('a \<Rightarrow> 'a \<Rightarrow> bool) \<Rightarrow> 'a list \<Rightarrow> 'a list" where
  "priority_queue_pop cmp c =
     (if length c \<le> 1 then [] else adjust_heap cmp (butlast c) (length c - 1) (last c))"

text \<open>
  The comparator of the priority queue, as declared in \<open>PerfEventProcessor.h\<close>: it
  compares the timestamps of the events at the front of the two queues and never looks at
  the file descriptors.
\<close>

definition QueueFrontTimestampReverseCompare ::
  "int \<times> PerfEvent list \<Rightarrow> int \<times> PerfEvent list \<Rightarrow> bool" where
  "QueueFrontTimestampReverseCompare lhs rhs =
     (timestamp (hd (snd lhs)) > timestamp (hd (snd rhs)))"

text \<open>
  The priority queue holds pairs of a file descriptor and a shared pointer to the queue of
  that file descriptor; \<open>fd_event_queues_\<close> maps the file descriptor to the same shared
  pointer.  At any time a file descriptor has at most one queue, so the queue is stored
  once, in \<open>fd_event_queues\<close>, and an element of \<open>event_queues_queue\<close> is the file
  descriptor, standing for the pair: \<open>compare_fds\<close> follows the pointers and applies the
  comparator to the two pairs.
\<close>

record PerfEventQueue =
  event_queues_queue :: "int list"
  fd_event_queues :: "int \<rightharpoonup> PerfEvent list"

definition compare_fds :: "(int \<rightharpoonup> PerfEvent list) \<Rightarrow> int \<Rightarrow> int \<Rightarrow> bool" where
  "compare_fds queues lhs rhs =
     QueueFrontTimestampReverseCompare (lhs, the (queues lhs)) (rhs, the (queues rhs))"

text \<open>
  Modelled from the spec: the bodies of \<open>PerfEventQueue::PushEvent\<close>, \<open>HasEvent\<close>,
  \<open>TopEvent\<close> and \<open>PopEvent\<close> are not part of the sources at hand (only the class
  declaration is).  Section 4.2 of the specification: \<open>push\<close> appends to the FIFO of the
  source, and a source that has no FIFO enters the heap; \<open>top\<close> is the front event of
  the pair at the top of the heap; \<open>pop\<close> removes the winning pair from the heap, pops the
  front of its FIFO and, if the FIFO is not empty, inserts the pair again; a source with an
  empty FIFO is absent from the heap.  \<open>TopEvent\<close> and \<open>PopEvent\<close> on a queue without
  events are undefined behaviour.
\<close>

definition PushEvent :: "int \<Rightarrow> PerfEvent \<Rightarrow> PerfEventQueue \<Rightarrow> PerfEventQueue" where
  "PushEvent origin_fd event q =
     (case fd_event_queues q origin_fd of
        Some fifo \<Rightarrow>
          q\<lparr>fd_event_queues := (fd_event_queues q)(origin_fd \<mapsto> fifo @ [event])\<rparr>
      | None \<Rightarrow>
          \<lparr>event_queues_queue =
             priority_queue_push (compare_fds ((fd_event_queues q)(origin_fd \<mapsto> [event])))
               (event_queues_queue q) origin_fd,
           fd_event_queues = (fd_event_queues q)(origin_fd \<mapsto> [event])\<rparr>)"

definition HasEvent :: "PerfEventQueue \<Rightarrow> bool" where
  "HasEvent q = (event_queues_queue q \<noteq> [])"

definition TopEvent :: "PerfEventQueue \<Rightarrow> error + PerfEvent" where
  "TopEvent q =
     (case event_queues_queue q of
        [] \<Rightarrow> Inl UndefinedBehavior
      | top_fd # _ \<Rightarrow>
          (case fd_event_queues q top_fd of
             Some (top_event # _) \<Rightarrow> Inr top_event
           | _ \<Rightarrow> Inl UndefinedBehavior))"

definition PopEvent :: "PerfEventQueue \<Rightarrow> error + (PerfEvent \<times> PerfEventQueue)" where
  "PopEvent q =
     (case event_queues_queue q of
        [] \<Rightarrow> Inl UndefinedBehavior
      | top_fd # _ \<Rightarrow>
          (case fd_event_queues q top_fd of
             Some (top_event # top_queue) \<Rightarrow>
               if top_queue = []
               then Inr (top_event,
                         \<lparr>event_queues_queue =
                            priority_queue_pop (compare_fds (fd_event_queues q))
                              (event_queues_queue q),
                          fd_event_queues = (fd_event_queues q)(top_fd := None)\<rparr>)
               else Inr (top_event,
                         \<lparr>event_queues_queue =
                            priority_queue_push
                              (compare_fds ((fd_event_queues q)(top_fd \<mapsto> top_queue)))
                              (priority_queue_pop (compare_fds (fd_event_queues q))
                                 (event_queues_queue q))
                              top_fd,
                          fd_event_queues = (fd_event_queues q)(top_fd \<mapsto> top_queue)\<rparr>)
           | _ \<Rightarrow> Inl UndefinedBehavior))"

definition empty_queue :: PerfEventQueue where
  "empty_queue = \<lparr>event_queues_queue = [], fd_event_queues = Map.empty\<rparr>"


text \<open>
  \<open>queue_of\<close> is the FIFO of a file descriptor (empty when it has none);
  \<open>queued_events\<close> are the events held in the FIFOs of the heap, \<open>num_events\<close> their
  number.
\<close>

definition queue_of :: "(int \<rightharpoonup> PerfEvent list) \<Rightarrow> int \<Rightarrow> PerfEvent list" where
  "queue_of queues fd = (case queues fd of None \<Rightarrow> [] | Some fifo \<Rightarrow> fifo)"


definition num_events :: "PerfEventQueue \<Rightarrow> nat" where
  "num_events q =
     (\<Sum>fd \<in># mset (event_queues_queue q). length (queue_of (fd_event_queues q) fd))"

section \<open>PerfEventProcessor\<close>

text \<open>
  Modelled from the spec: the bodies of \<open>PerfEventProcessor::AddEvent\<close>,
  \<open>ProcessAllEvents\<close> and \<open>ProcessOldEvents\<close> are not part of the sources at hand.
  Section 4.3 of the specification: \<open>add\<close> forwards to the merger; \<open>process_all\<close> drains
  every buffered event; \<open>process_old\<close> releases only events with a timestamp of at most
  \<open>now\<close> minus the safety delay; an event whose timestamp is strictly less than
  \<open>last_processed_timestamp\<close> is discarded and counted, any other event is dispatched to
  the visitors and advances \<open>last_processed_timestamp\<close>.  The clock is the parameter
  \<open>now\<close>, in nanoseconds; \<open>visited\<close> lists the events dispatched to the visitors,
  oldest dispatch first.
\<close>

definition kProcessingDelayMs :: "64 word" where
  "kProcessingDelayMs = 100"

record PerfEventProcessor =
  last_processed_timestamp_ns :: "64 word"
  discarded_out_of_order_counter :: "64 word"
  event_queue :: PerfEventQueue
  visited :: "PerfEvent list"

definition new_processor :: PerfEventProcessor where
  "new_processor =
     \<lparr>last_processed_timestamp_ns = 0, discarded_out_of_order_counter = 0,
      event_queue = empty_queue, visited = []\<rparr>"

definition AddEvent :: "int \<Rightarrow> PerfEvent \<Rightarrow> PerfEventProcessor \<Rightarrow> PerfEventProcessor" where
  "AddEvent origin_fd event p = p\<lparr>event_queue := PushEvent origin_fd event (event_queue p)\<rparr>"

definition process_event :: "PerfEvent \<Rightarrow> PerfEventProcessor \<Rightarrow> PerfEventProcessor" where
  "process_event event p =
     (if timestamp event < last_processed_timestamp_ns p
      then p\<lparr>discarded_out_of_order_counter := discarded_out_of_order_counter p + 1\<rparr>
      else p\<lparr>last_processed_timestamp_ns := timestamp event, visited := visited p @ [event]\<rparr>)"

function process_while ::
  "(PerfEvent \<Rightarrow> bool) \<Rightarrow> PerfEventProcessor \<Rightarrow> error + PerfEventProcessor" where
  "process_while old_enough p =
     (if \<not> HasEvent (event_queue p) then Inr p
      else
        (case TopEvent (event_queue p) of
           Inl e \<Rightarrow> Inl e
         | Inr event \<Rightarrow>
             if \<not> old_enough event then Inr p
             else
               (case PopEvent (event_queue p) of
                  Inl e \<Rightarrow> Inl e
                | Inr (popped, q') \<Rightarrow>
                    process_while old_enough (process_event popped (p\<lparr>event_queue := q'\<rparr>)))))"
  by pat_completeness auto

definition ProcessAllEvents :: "PerfEventProcessor \<Rightarrow> error + PerfEventProcessor" where
  "ProcessAllEvents p = process_while (\<lambda>event. True) p"

definition ProcessOldEvents :: "64 word \<Rightarrow> PerfEventProcessor \<Rightarrow> error + PerfEventProcessor" where
  "ProcessOldEvents now p =
     process_while (\<lambda>event. timestamp event \<le> now - kProcessingDelayMs * 1000000) p"

text \<open>
  A run of the processor is a list of calls; \<open>run_calls\<close> makes them in order.
  \<open>added_events\<close> are the events the calls add, in order, \<open>events_from fd\<close> those of
  one source.
\<close>

datatype processor_call = Add int PerfEvent | ProcessOld "64 word"

fun run_calls :: "processor_call list \<Rightarrow> PerfEventProcessor \<Rightarrow> error + PerfEventProcessor" where
  "run_calls [] p = Inr p"
| "run_calls (Add origin_fd event # calls) p = run_calls calls (AddEvent origin_fd event p)"
| "run_calls (ProcessOld now # calls) p =
     (case ProcessOldEvents now p of
        Inl e \<Rightarrow> Inl e
      | Inr p' \<Rightarrow> run_calls calls p')"








definition front_timestamp :: "(int \<rightharpoonup> PerfEvent list) \<Rightarrow> int \<Rightarrow> 64 word" where
  "front_timestamp queues fd = timestamp (hd (the (queues fd)))"




section \<open>Evaluation lemmas\<close>

lemma then_do_simps [simp]: "then_do (Inl e) f = Inl e" "then_do (Inr x) f = f x"
  by (simp_all add: then_do_def)

lemma find_ready_slot_saturated:
  "\<forall>i < kNumLogicalQuerySlots. slots ! i = kQueryPendingOnGPU \<Longrightarrow>
   current_slot < kNumLogicalQuerySlots \<Longrightarrow> find_ready_slot slots current_slot n = None"
proof (induction n arbitrary: current_slot)
  case 0
  show ?case by (simp add: find_ready_slot.simps)
next
  case (Suc n)
  have "(current_slot + 1) mod kNumLogicalQuerySlots < kNumLogicalQuerySlots"
    by (simp add: kNumLogicalQuerySlots_def)
  with Suc show ?case
    by (subst find_ready_slot.simps) simp
qed

lemma find_ready_slot_hit:
  "0 < n \<Longrightarrow> slots ! current_slot = kReadyForQueryIssue \<Longrightarrow>
   find_ready_slot slots current_slot n = Some current_slot"
  by (subst find_ready_slot.simps) simp

lemma saturated_next:
  "NextReadyQuerySlot 1 (timer_query_pool saturated_manager) =
     Inr (None, timer_query_pool saturated_manager)"
proof -
  have "find_ready_slot (replicate kNumLogicalQuerySlots kQueryPendingOnGPU) 0
          kNumLogicalQuerySlots = None"
    by (rule find_ready_slot_saturated) (simp_all add: kNumLogicalQuerySlots_def)
  then show ?thesis
    by (simp add: NextReadyQuerySlot_def saturated_manager_def empty_manager_def)
qed

lemmas mark_defs =
  MarkCommandBufferBegin_def MarkCommandBufferEnd_def MarkDebugMarkerBegin_def
  MarkDebugMarkerEnd_def append_marker_and_slot_def write_timestamp_in_new_slot_def Let_def

lemmas eval_defs =
  mark_defs DoPreSubmitQueue_def DoPostSubmitQueue_def last_submission_def
  fresh_manager_def empty_manager_def InitializeTimerQueryPool_def NextReadyQuerySlot_def
  find_ready_slot_hit kNumLogicalQuerySlots_def CompleteSubmits_def write_submission_def
  write_marker_def ResetQuerySlots_def set_slots_ready_def

lemma marker_manager_reached:
  "then_do (MarkCommandBufferBegin True 7 fresh_manager)
     (MarkDebugMarkerBegin True 7 (Some ''a'')) = Inr marker_manager"
  by (simp add: eval_defs marker_manager_def numeral_2_eq_2)

section \<open>Saturated slot pool\<close>

text \<open>
  C2, as the code has it: while capturing, when the device of the command buffer is known
  and \<open>NextReadyQuerySlot\<close> finds no slot, each of the four marking entry points that gets
  as far as reserving a slot fails \<open>CHECK(found_slot)\<close>, which aborts the process.  The
  mark is not skipped.
\<close>

theorem saturated_pool_aborts:
  assumes "command_buffer_to_device m cb = Some device"
    and "NextReadyQuerySlot device (timer_query_pool m) = Inr (None, pool')"
  shows "(command_buffer_to_state m cb = None \<longrightarrow>
            MarkCommandBufferBegin True cb m = Inl CheckFailed) \<and>
         (\<forall>st. command_buffer_to_state m cb = Some st \<and>
               command_buffer_begin_slot_index st \<noteq> None \<longrightarrow>
            MarkCommandBufferEnd True cb m = Inl CheckFailed) \<and>
         (\<forall>st. command_buffer_to_state m cb = Some st \<longrightarrow>
            MarkDebugMarkerBegin True cb (Some txt) m = Inl CheckFailed \<and>
            MarkDebugMarkerEnd True cb m = Inl CheckFailed)"
  using assms by (auto simp: mark_defs)

theorem saturated_pool_aborts_witness:
  "command_buffer_to_device saturated_manager 7 = Some 1 \<and>
   NextReadyQuerySlot 1 (timer_query_pool saturated_manager) =
     Inr (None, timer_query_pool saturated_manager) \<and>
   command_buffer_to_state (saturated_manager\<lparr>command_buffer_to_state := Map.empty\<rparr>) 7 = None \<and>
   MarkCommandBufferBegin True 7 (saturated_manager\<lparr>command_buffer_to_state := Map.empty\<rparr>) =
     Inl CheckFailed \<and>
   MarkCommandBufferEnd True 7 saturated_manager = Inl CheckFailed \<and>
   MarkDebugMarkerBegin True 7 (Some ''draw'') saturated_manager = Inl CheckFailed \<and>
   MarkDebugMarkerEnd True 7 saturated_manager = Inl CheckFailed"
proof -
  have d: "command_buffer_to_device saturated_manager 7 = Some 1"
    by (simp add: saturated_manager_def empty_manager_def)
  have d': "command_buffer_to_device
              (saturated_manager\<lparr>command_buffer_to_state := Map.empty\<rparr>) 7 = Some 1"
    by (simp add: saturated_manager_def empty_manager_def)
  have n': "NextReadyQuerySlot 1
              (timer_query_pool (saturated_manager\<lparr>command_buffer_to_state := Map.empty\<rparr>)) =
            Inr (None, timer_query_pool saturated_manager)"
    using saturated_next by simp
  have s: "command_buffer_to_state saturated_manager 7 =
             Some \<lparr>command_buffer_begin_slot_index = Some 0,
                   command_buffer_end_slot_index = None, markers = []\<rparr>"
    by (simp add: saturated_manager_def empty_manager_def)
  show ?thesis
    using saturated_pool_aborts [OF d saturated_next, of "''draw''"]
      saturated_pool_aborts [OF d' n', of "''draw''"] d s saturated_next
    by simp
qed

text \<open>
  C2 as stated fails: with every slot of the pool pending, each entry point called while
  capturing ends the process instead of skipping the mark.
\<close>

theorem saturated_pool_counterexample:
  "MarkCommandBufferEnd True 7 saturated_manager = Inl CheckFailed \<and>
   MarkDebugMarkerBegin True 7 (Some ''draw'') saturated_manager = Inl CheckFailed \<and>
   MarkDebugMarkerEnd True 7 saturated_manager = Inl CheckFailed \<and>
   MarkCommandBufferBegin True 7
     (saturated_manager\<lparr>command_buffer_to_state := Map.empty\<rparr>) = Inl CheckFailed"
  using saturated_next
  by (simp add: mark_defs saturated_manager_def empty_manager_def)

section \<open>Unmatched END markers\<close>

text \<open>
  C3 fails on the code.  Command buffer 7 is recorded with a single END debug marker and
  submitted to queue 3, whose marker stack is empty: \<open>DoPostSubmitQueue\<close> calls
  \<open>marker_stack.top()\<close> and \<open>pop()\<close> on the empty stack, which is undefined behaviour,
  instead of ignoring the marker.
\<close>

theorem end_marker_on_empty_stack_is_undefined:
  "then_do (MarkCommandBufferBegin False 7 fresh_manager) (\<lambda>m.
   then_do (MarkDebugMarkerEnd False 7 m) (\<lambda>m.
   then_do (DoPreSubmitQueue False 5 100 3 [[7]] m) (\<lambda>m.
     DoPostSubmitQueue False 200 3 [[7]] m))) = Inl UndefinedBehavior"
  by (simp add: eval_defs)

section \<open>The readiness probe\<close>

text \<open>
  C4 fails on the code.  Command buffer 7 is recorded while capturing (slots 0 and 1),
  command buffer 8 while not capturing; they are submitted in two submit infos, so the
  pending submission has the command-buffer lists \<open>[(0, 1)]\<close> and \<open>[]\<close>.  The
  specification asks for slot 1 to be polled.  \<open>CompleteSubmits\<close> reads
  \<open>submit_infos.back()\<close> in every round of the reverse scan, finds it empty each time,
  polls no slot at all and erases the submission without writing it; slots 0 and 1 stay
  pending.
\<close>

theorem trailing_empty_submit_info_is_not_probed:
  "then_do trailing_empty_trace
     (\<lambda>m. Inr (map spec_last_end_slot (the (queue_to_submissions m 3)))) = Inr [Some 1] \<and>
   then_do trailing_empty_trace (\<lambda>m.
   then_do (CompleteSubmits [0 \<mapsto> 1000, 1 \<mapsto> 3000] (\<lambda>t. t) (\<lambda>s. 0) 0 [3] 1 m)
     (\<lambda>(m', written, polled).
        Inr (polled, written, queue_to_submissions m' 3,
             slot_state (timer_query_pool m') 1 0, slot_state (timer_query_pool m') 1 1))) =
   Inr ([], [], Some [], Some kQueryPendingOnGPU, Some kQueryPendingOnGPU)"
  by (simp add: trailing_empty_trace_def eval_defs spec_last_end_slot_def slot_state_def
      numeral_2_eq_2)

section \<open>Command buffers without a begin slot at submission\<close>






section \<open>Capture toggled between begin and end\<close>

text \<open>
  C6 fails on the code.  \<open>MarkCommandBufferBegin\<close> runs while capturing and reserves slot
  0, \<open>MarkCommandBufferEnd\<close> runs while not capturing and returns at once.  The command
  buffer reaches \<open>DoPreSubmitQueue\<close> with its begin slot set and its end slot unset, and
  \<open>CHECK(state.command_buffer_end_slot_index.has_value())\<close> ends the process.
\<close>

theorem capture_toggle_leaves_end_slot_unset:
  "then_do (MarkCommandBufferBegin True 7 fresh_manager) (\<lambda>m.
   then_do (MarkCommandBufferEnd False 7 m) (\<lambda>m.
     Inr (map_option (\<lambda>st. (command_buffer_begin_slot_index st,
                            command_buffer_end_slot_index st))
           (command_buffer_to_state m 7)))) = Inr (Some (Some 0, None)) \<and>
   then_do (MarkCommandBufferBegin True 7 fresh_manager) (\<lambda>m.
   then_do (MarkCommandBufferEnd False 7 m) (\<lambda>m.
     DoPreSubmitQueue True 5 100 3 [[7]] m)) = Inl CheckFailed"
  by (simp add: eval_defs)

section \<open>Markers without a slot\<close>




section \<open>Resetting a command buffer\<close>

lemma set_slots_ready_nth:
  "index \<notin> set slot_indices \<Longrightarrow> set_slots_ready slot_indices slots ! index = slots ! index"
  unfolding set_slots_ready_def
  by (induction slot_indices arbitrary: slots) auto

lemma set_slots_ready_length: "length (set_slots_ready slot_indices slots) = length slots"
  unfolding set_slots_ready_def
  by (induction slot_indices arbitrary: slots) auto

lemma rollback_frame:
  "RollbackPendingQuerySlots device slot_indices pool = Inr pool' \<Longrightarrow>
   index \<notin> set slot_indices \<Longrightarrow> slot_state pool' device index = slot_state pool device index"
  by (auto simp: RollbackPendingQuerySlots_def slot_state_def set_slots_ready_nth
      set_slots_ready_length split: option.splits)

text \<open>
  C9: \<open>ResetCommandBuffer\<close> on a command buffer that is being recorded passes to
  \<open>RollbackPendingQuerySlots\<close> the begin slot and the end slot of the state, as far as
  they are set, and nothing else, and erases the state.  A slot that a debug marker of
  the state holds (it is pending, and it is neither the begin nor the end slot, since
  every reservation takes a slot that was ready) is still pending afterwards.
\<close>

theorem reset_leaves_marker_slots_pending:
  assumes "command_buffer_to_state m cb = Some st"
    and "command_buffer_to_device m cb = Some device"
    and "marker \<in> set (markers st)"
    and "marker_slot_index marker = Some slot"
    and "slot_state (timer_query_pool m) device slot = Some kQueryPendingOnGPU"
    and "command_buffer_begin_slot_index st \<noteq> Some slot"
    and "command_buffer_end_slot_index st \<noteq> Some slot"
  shows "\<exists>m'. ResetCommandBuffer cb m = Inr m' \<and>
     RollbackPendingQuerySlots device (slots_to_rollback st) (timer_query_pool m) =
       Inr (timer_query_pool m') \<and>
     slot \<notin> set (slots_to_rollback st) \<and>
     set (slots_to_rollback st) =
       set_option (command_buffer_begin_slot_index st) \<union>
       set_option (command_buffer_end_slot_index st) \<and>
     command_buffer_to_state m' cb = None \<and>
     slot_state (timer_query_pool m') device slot = Some kQueryPendingOnGPU"
proof -
  from assms(5) obtain slots where
    "device_to_query_slots (timer_query_pool m) device = Some slots"
    by (auto simp: slot_state_def split: option.splits)
  then obtain pool' where
    r: "RollbackPendingQuerySlots device (slots_to_rollback st) (timer_query_pool m) = Inr pool'"
    by (simp add: RollbackPendingQuerySlots_def)
  have s: "set (slots_to_rollback st) =
       set_option (command_buffer_begin_slot_index st) \<union>
       set_option (command_buffer_end_slot_index st)"
    by (auto simp: slots_to_rollback_def split: option.splits)
  have n: "slot \<notin> set (slots_to_rollback st)"
    using assms(6,7) by (auto simp: slots_to_rollback_def split: option.splits)
  have e: "ResetCommandBuffer cb m =
     Inr (m\<lparr>timer_query_pool := pool',
            command_buffer_to_state := (command_buffer_to_state m)(cb := None)\<rparr>)"
    using assms(1,2) r by (simp add: ResetCommandBuffer_def)
  show ?thesis
    using e r s n rollback_frame [OF r n] assms(5) by simp
qed

theorem reset_leaves_marker_slots_pending_witness:
  "slot_state (timer_query_pool marker_manager) 1 1 = Some kQueryPendingOnGPU \<and>
   (\<exists>m'. ResetCommandBuffer 7 marker_manager = Inr m' \<and>
      RollbackPendingQuerySlots 1 [0] (timer_query_pool marker_manager) =
        Inr (timer_query_pool m') \<and>
      slots_to_rollback (the (command_buffer_to_state marker_manager 7)) = [0] \<and>
      command_buffer_to_state m' 7 = None \<and>
      slot_state (timer_query_pool m') 1 1 = Some kQueryPendingOnGPU)"
proof -
  have p: "slot_state (timer_query_pool marker_manager) 1 1 = Some kQueryPendingOnGPU"
    by (simp add: marker_manager_def slot_state_def kNumLogicalQuerySlots_def)
  have s: "command_buffer_to_state marker_manager 7 =
     Some \<lparr>command_buffer_begin_slot_index = Some 0, command_buffer_end_slot_index = None,
           markers = [\<lparr>marker_type = kDebugMarkerBegin, marker_slot_index = Some 1,
                       marker_text = ''a''\<rparr>]\<rparr>"
    by (simp add: marker_manager_def)
  have d: "command_buffer_to_device marker_manager 7 = Some 1"
    by (simp add: marker_manager_def fresh_manager_def)
  show ?thesis
    using reset_leaves_marker_slots_pending
      [OF s d _ _ p,
       of "\<lparr>marker_type = kDebugMarkerBegin, marker_slot_index = Some 1, marker_text = ''a''\<rparr>"]
      p s
    by (simp add: slots_to_rollback_def)
qed

section \<open>States erased after submission\<close>





section \<open>The binary heap\<close>

declare sift_up.simps [simp del] adjust_heap_hole.simps [simp del]

lemma sift_up_length [simp]: "length (sift_up cmp c hole) = length c"
proof (induction cmp c hole rule: sift_up.induct)
  case (1 cmp c hole)
  then show ?case
    by (subst sift_up.simps) simp
qed

lemma sift_up_mset: "hole < length c \<Longrightarrow> mset (sift_up cmp c hole) = mset c"
proof (induction cmp c hole rule: sift_up.induct)
  case (1 cmp c hole)
  show ?case
  proof (cases "0 < hole \<and> cmp (c ! ((hole - 1) div 2)) (c ! hole)")
    case True
    then have p: "(hole - 1) div 2 < length c" using "1.prems" by arith
    have "mset (sift_up cmp c hole) =
          mset (c[hole := c ! ((hole - 1) div 2), (hole - 1) div 2 := c ! hole])"
      using True "1.IH" p by (subst sift_up.simps) simp
    also have "\<dots> = mset c"
      using p "1.prems" by (simp add: mset_swap)
    finally show ?thesis .
  next
    case False
    then show ?thesis by (subst sift_up.simps) auto
  qed
qed





lemma priority_queue_push_mset: "mset (priority_queue_push cmp c x) = add_mset x (mset c)"
  by (simp add: priority_queue_push_def sift_up_mset)




lemma mset_move_hole:
  assumes "hole < length c" and "ch < length c" and "hole \<noteq> ch"
  shows "mset (c[hole := c ! ch, ch := v]) = mset (c[hole := v])"
proof -
  have "mset (c[hole := c ! ch, ch := v]) =
        add_mset v (mset (c[hole := c ! ch]) - {#c ! ch#})"
    using assms by (simp add: mset_update)
  also have "mset (c[hole := c ! ch]) = add_mset (c ! ch) (mset c - {#c ! hole#})"
    using assms by (simp add: mset_update)
  finally show ?thesis using assms by (simp add: mset_update)
qed

lemma adjust_heap_hole_shape:
  assumes "hole < length c"
    and "adjust_heap_hole cmp c hole (length c) = (c', hole')"
  shows "length c' = length c \<and> hole' < length c \<and> \<not> hole' < (length c - 1) div 2 \<and>
         (\<forall>v. mset (c'[hole' := v]) = mset (c[hole := v]))"
  using assms
proof (induction cmp c hole "length c" arbitrary: c' hole' rule: adjust_heap_hole.induct)
  case (1 cmp c hole)
  let ?r = "2 * (hole + 1)" and ?l = "2 * (hole + 1) - 1"
  show ?case
  proof (cases "hole < (length c - 1) div 2")
    case False
    then have "c' = c" "hole' = hole"
      using "1.prems"(2) by (simp_all add: adjust_heap_hole.simps)
    then show ?thesis using False "1.prems" by simp
  next
    case True
    then have rl: "?r < length c" and ll: "?l < length c" by arith+
    show ?thesis
    proof (cases "cmp (c ! ?r) (c ! ?l)")
      case left: True
      have run: "adjust_heap_hole cmp (c[hole := c ! ?l]) ?l (length (c[hole := c ! ?l])) =
                 (c', hole')"
        using "1.prems"(2) True left by (subst (asm) adjust_heap_hole.simps) simp
      from "1.hyps"(1) [OF True left _ _ run] ll
      have r: "length c' = length c \<and> hole' < length c \<and> \<not> hole' < (length c - 1) div 2 \<and>
         (\<forall>v. mset (c'[hole' := v]) = mset (c[hole := c ! ?l, ?l := v]))"
        by simp
      have "\<forall>v. mset (c[hole := c ! ?l, ?l := v]) = mset (c[hole := v])"
        using "1.prems"(1) ll by (intro allI mset_move_hole) simp_all
      then show ?thesis using r by simp
    next
      case right: False
      have run: "adjust_heap_hole cmp (c[hole := c ! ?r]) ?r (length (c[hole := c ! ?r])) =
                 (c', hole')"
        using "1.prems"(2) True right by (subst (asm) adjust_heap_hole.simps) simp
      from "1.hyps"(2) [OF True right _ _ run] rl
      have r: "length c' = length c \<and> hole' < length c \<and> \<not> hole' < (length c - 1) div 2 \<and>
         (\<forall>v. mset (c'[hole' := v]) = mset (c[hole := c ! ?r, ?r := v]))"
        by simp
      have "\<forall>v. mset (c[hole := c ! ?r, ?r := v]) = mset (c[hole := v])"
        using "1.prems"(1) rl by (intro allI mset_move_hole) simp_all
      then show ?thesis using r by simp
    qed
  qed
qed



lemma adjust_heap_mset:
  assumes "c \<noteq> []"
  shows "mset (adjust_heap cmp c (length c) v) = mset (c[0 := v])"
proof -
  obtain c1 hole where run: "adjust_heap_hole cmp c 0 (length c) = (c1, hole)"
    by (cases "adjust_heap_hole cmp c 0 (length c)")
  have pos: "0 < length c" using assms by simp
  from adjust_heap_hole_shape [OF pos run]
  have l1: "length c1 = length c" and hl: "hole < length c"
    and m: "\<forall>v. mset (c1[hole := v]) = mset (c[0 := v])"
    by simp_all
  show ?thesis
  proof (cases "even (length c) \<and> hole = (length c - 2) div 2")
    case True
    then have ll: "2 * (hole + 1) - 1 < length c1" and ne: "hole \<noteq> 2 * (hole + 1) - 1"
      using pos l1 by presburger+
    have "mset (adjust_heap cmp c (length c) v) =
          mset (c1[hole := c1 ! (2 * (hole + 1) - 1), 2 * (hole + 1) - 1 := v])"
      using run True ll by (simp add: adjust_heap_def sift_up_mset)
    also have "\<dots> = mset (c1[hole := v])"
      using hl l1 ll ne by (intro mset_move_hole) simp_all
    finally show ?thesis using m by simp
  next
    case False
    then have "mset (adjust_heap cmp c (length c) v) = mset (c1[hole := v])"
      using run hl l1 by (auto simp: adjust_heap_def sift_up_mset)
    then show ?thesis using m by simp
  qed
qed


lemma priority_queue_pop_mset:
  "c \<noteq> [] \<Longrightarrow> mset (priority_queue_pop cmp c) = mset (tl c)"
proof (cases "length c \<le> 1")
  case True
  moreover assume "c \<noteq> []"
  ultimately have "tl c = []" by (cases c) auto
  then show ?thesis using True by (simp add: priority_queue_pop_def)
next
  case False
  then obtain x c' where c: "c = x # c'" and c': "c' \<noteq> []" by (cases c) auto
  have b: "butlast c \<noteq> []" and l: "length c - 1 = length (butlast c)"
    using c c' by simp_all
  have "(butlast c)[0 := last c] = last c' # butlast c'"
    using c c' by simp
  then have "mset ((butlast c)[0 := last c]) = mset (butlast c' @ [last c'])"
    by simp
  also have "\<dots> = mset (tl c)" using c c' by simp
  finally show ?thesis
    using False adjust_heap_mset [OF b, of cmp "last c"]
    by (simp add: priority_queue_pop_def l)
qed


section \<open>The heap of queues\<close>






lemma queue_of_upd [simp]:
  "queue_of (queues(fd := v)) fd' =
     (if fd' = fd then (case v of None \<Rightarrow> [] | Some fifo \<Rightarrow> fifo)
      else queue_of queues fd')"
  by (simp add: queue_of_def)

lemma front_timestamp_upd [simp]:
  "front_timestamp (queues(fd := v)) fd' =
     (if fd' = fd then timestamp (hd (the v)) else front_timestamp queues fd')"
  by (simp add: front_timestamp_def)







lemma sum_mset_le:
  fixes f g :: "'a \<Rightarrow> nat"
  shows "\<forall>x \<in># M. f x \<le> g x \<Longrightarrow> (\<Sum>x \<in># M. f x) \<le> (\<Sum>x \<in># M. g x)"
  by (induction M) (auto intro: add_mono)

lemma PopEvent_decreases:
  assumes "PopEvent q = Inr (e, q')"
  shows "num_events q' < num_events q"
proof -
  from assms obtain top_fd rest where heap: "event_queues_queue q = top_fd # rest"
    by (cases "event_queues_queue q") (auto simp: PopEvent_def)
  from assms heap obtain top_queue where qs: "fd_event_queues q top_fd = Some (e # top_queue)"
    by (auto simp: PopEvent_def split: option.splits list.splits if_splits)
  let ?popped = "priority_queue_pop (compare_fds (fd_event_queues q)) (event_queues_queue q)"
  have pm: "mset ?popped = mset rest"
    using heap by (simp add: priority_queue_pop_mset)
  have before: "num_events q =
      Suc (length top_queue) + (\<Sum>x \<in># mset rest. length (queue_of (fd_event_queues q) x))"
    using heap qs by (simp add: num_events_def queue_of_def)
  have le: "\<And>v. length v \<le> length top_queue \<Longrightarrow>
      (\<Sum>x \<in># mset rest. length (queue_of ((fd_event_queues q)(top_fd \<mapsto> v)) x)) \<le>
      (\<Sum>x \<in># mset rest. length (queue_of (fd_event_queues q) x))"
    using qs by (intro sum_mset_le) (auto simp: queue_of_def)
  have le': "(\<Sum>x \<in># mset rest. length (queue_of ((fd_event_queues q)(top_fd := None)) x)) \<le>
      (\<Sum>x \<in># mset rest. length (queue_of (fd_event_queues q) x))"
    by (intro sum_mset_le) (auto simp: queue_of_def)
  show ?thesis
  proof (cases "top_queue = []")
    case True
    then have "q' = \<lparr>event_queues_queue = ?popped,
                     fd_event_queues = (fd_event_queues q)(top_fd := None)\<rparr>"
      using assms heap qs by (simp add: PopEvent_def)
    then have "num_events q' =
        (\<Sum>x \<in># mset rest. length (queue_of ((fd_event_queues q)(top_fd := None)) x))"
      using pm by (simp add: num_events_def)
    then show ?thesis using before le' by simp
  next
    case False
    then have "q' = \<lparr>event_queues_queue =
                       priority_queue_push
                         (compare_fds ((fd_event_queues q)(top_fd \<mapsto> top_queue))) ?popped top_fd,
                     fd_event_queues = (fd_event_queues q)(top_fd \<mapsto> top_queue)\<rparr>"
      using assms heap qs by (simp add: PopEvent_def)
    then have "num_events q' = length top_queue +
        (\<Sum>x \<in># mset rest. length (queue_of ((fd_event_queues q)(top_fd \<mapsto> top_queue)) x))"
      using pm by (simp add: num_events_def priority_queue_push_mset)
    then show ?thesis using before le [of top_queue] by simp
  qed
qed

section \<open>Processing events in order\<close>

lemma event_queue_process_event [simp]: "event_queue (process_event event p) = event_queue p"
  by (simp add: process_event_def)

termination process_while
  by (relation "measure (\<lambda>(old_enough, p). num_events (event_queue p))")
    (auto simp: PopEvent_decreases)

declare process_while.simps [simp del]














text \<open>
  The two-source merge of the specification: source 1 adds the timestamps 10, 20, 30,
  source 2 adds 15, 25, 35, and \<open>ProcessAllEvents\<close> dispatches 10, 15, 20, 25, 30, 35.
\<close>

lemmas queue_eval =
  process_while.simps ProcessAllEvents_def ProcessOldEvents_def AddEvent_def PushEvent_def
  PopEvent_def TopEvent_def HasEvent_def priority_queue_push_def priority_queue_pop_def
  sift_up.simps adjust_heap_hole.simps adjust_heap_def compare_fds_def QueueFrontTimestampReverseCompare_def
  process_event_def new_processor_def empty_queue_def kProcessingDelayMs_def

lemma two_source_merge:
  "then_do
     (run_calls
        [Add 1 \<lparr>timestamp = 10, payload = 0\<rparr>, Add 1 \<lparr>timestamp = 20, payload = 1\<rparr>,
         Add 1 \<lparr>timestamp = 30, payload = 2\<rparr>, Add 2 \<lparr>timestamp = 15, payload = 3\<rparr>,
         Add 2 \<lparr>timestamp = 25, payload = 4\<rparr>, Add 2 \<lparr>timestamp = 35, payload = 5\<rparr>]
        new_processor)
     (\<lambda>p. then_do (ProcessAllEvents p) (\<lambda>p'. Inr (map timestamp (visited p')))) =
   Inr [10, 15, 20, 25, 30, 35]"
  by (simp add: queue_eval)

section \<open>Events with equal timestamps\<close>




end
